theory Spec2Isabelle
  imports Main "HOL-Library.Sublist"
begin

section \<open>Python string primitives used by ilostat.py\<close>

text \<open>
  Strings are byte lists. The module only handles ASCII identifiers, dates, paths and
  URLs, so \<open>str.lower\<close> is modelled on the ASCII letters.
\<close>

definition slice :: "nat \<Rightarrow> nat \<Rightarrow> 'a list \<Rightarrow> 'a list" where
  \<comment> \<open>\<open>s[a:b]\<close> for literal bounds \<open>0 \<le> a \<le> b\<close>: never raises, a short string
      gives a short slice.\<close>
  "slice a b s = take (b - a) (drop a s)"

definition lower_char :: "char \<Rightarrow> char" where
  "lower_char c =
     (let n = (of_char c :: nat) in if 65 \<le> n \<and> n \<le> 90 then char_of (n + 32) else c)"

definition lower :: "string \<Rightarrow> string" where
  "lower s = map lower_char s"

fun find_at :: "string \<Rightarrow> string \<Rightarrow> nat \<Rightarrow> int" where
  "find_at sub [] k = (if sub = [] then int k else - 1)"
| "find_at sub (c # cs) k = (if prefix sub (c # cs) then int k else find_at sub cs (Suc k))"

definition py_find :: "string \<Rightarrow> string \<Rightarrow> int" where
  \<comment> \<open>\<open>s.find(sub)\<close>: the first index where \<open>sub\<close> starts, or -1.\<close>
  "py_find s sub = find_at sub s 0"

fun join :: "string \<Rightarrow> string list \<Rightarrow> string" where
  "join sep [] = []"
| "join sep [x] = x"
| "join sep (x # y # ys) = x @ sep @ join sep (y # ys)"

fun split_on :: "char \<Rightarrow> string \<Rightarrow> string list" where
  \<comment> \<open>\<open>s.split(d)\<close> with a one-character separator: every occurrence splits, empty
      pieces are kept.\<close>
  "split_on d [] = [[]]"
| "split_on d (c # cs) =
     (if c = d then [] # split_on d cs
      else (case split_on d cs of [] \<Rightarrow> [[c]] | w # ws \<Rightarrow> (c # w) # ws))"

function replace_all :: "string \<Rightarrow> string \<Rightarrow> string \<Rightarrow> string" where
  \<comment> \<open>\<open>s.replace(old, new)\<close> for a non-empty \<open>old\<close>: every non-overlapping occurrence,
      left to right.\<close>
  "replace_all old new [] = []"
| "replace_all old new (c # cs) =
     (if old \<noteq> [] \<and> prefix old (c # cs)
      then new @ replace_all old new (drop (length old) (c # cs))
      else c # replace_all old new cs)"
  by pat_completeness auto
termination
  by (relation "measure (\<lambda>(old, new, s). length s)") (auto simp: prefix_def)

section \<open>Exceptions\<close>

text \<open>
  A constructor stands for a Python exception class together with its subclasses, which
  is what an \<open>except\<close> clause matches on. \<open>OSError\<close> is also \<open>IOError\<close> (an alias in
  Python 3) and covers \<open>FileNotFoundError\<close>, urllib's \<open>HTTPError\<close>/\<open>URLError\<close>, requests'
  exceptions and gzip's \<open>BadGzipFile\<close>. \<open>ValueError\<close> covers pandas' \<open>ParserError\<close> and
  \<open>EmptyDataError\<close>. \<open>ReError\<close> is \<open>re.error\<close>. \<open>UnboundLocalError\<close> is the \<open>NameError\<close>
  raised when a local variable is read before any assignment.
\<close>

datatype exn =
  OSError | ValueError | AttributeError | TypeError | KeyError | IndexError
  | ReError | UnboundLocalError

section \<open>Tables\<close>

text \<open>
  A pandas DataFrame: the columns in order, each with its name and whether its dtype is
  \<open>object\<close> (text read with \<open>dtype = str\<close>: every cell a string or NaN) or numeric
  (\<open>obs_value\<close> as float32, \<open>n.records\<close> as int64), and the rows in order. The numeric
  values are never inspected by the module, so their type is a parameter.
\<close>

datatype 'n cell = Str string | NaN | Num 'n

datatype dtype = ObjectT | NumericT

record 'n table =
  columns :: "(string \<times> dtype) list"
  rows :: "'n cell list list"

definition DataFrame :: "'n table" where
  \<comment> \<open>\<open>pandas.DataFrame()\<close>: no column, no row.\<close>
  "DataFrame = \<lparr>columns = [], rows = []\<rparr>"

definition cell_at :: "'n cell list \<Rightarrow> nat \<Rightarrow> 'n cell" where
  \<comment> \<open>A row shorter than the header is padded with NaN, as \<open>read_csv\<close> does.\<close>
  "cell_at r i = (if i < length r then r ! i else NaN)"

definition column_index :: "string \<Rightarrow> 'n table \<Rightarrow> nat option" where
  "column_index name t =
     (if name \<in> set (map fst (columns t))
      then Some (length (takeWhile (\<lambda>c. c \<noteq> name) (map fst (columns t)))) else None)"

section \<open>The filter step (get_ilostat_dat lines 201-222, get_ilostat_toc lines 391-413)\<close>

text \<open>
  A filter slot is what \<open>filters[index]\<close> holds: a list of strings, or a single string
  (the docstring's \<open>'T'\<close>, and \<open>filters = [id]\<close> in \<open>get_ilostat_dat\<close>). \<open>'|'.join\<close> iterates
  its argument, so a string slot is joined character by character.
\<close>

datatype slot = SlotList "string list" | SlotStr string

fun slot_truthy :: "slot \<Rightarrow> bool" where
  "slot_truthy (SlotList xs) = (xs \<noteq> [])"
| "slot_truthy (SlotStr s) = (s \<noteq> [])"

fun join_slot :: "slot \<Rightarrow> string" where
  "join_slot (SlotList xs) = join ''|'' xs"
| "join_slot (SlotStr s) = join ''|'' (map (\<lambda>c. [c]) s)"

text \<open>
  The regular-expression engine is Python's \<open>re\<close>, outside the repository: it is a
  parameter. \<open>re pat\<close> is \<open>None\<close> when \<open>re.compile(pat)\<close> raises \<open>re.error\<close>, and otherwise
  the predicate \<open>\<lambda>s. regex.search(s) is not None\<close>.
\<close>

type_synonym regex = "string \<Rightarrow> (string \<Rightarrow> bool) option"

definition str_contains :: "(string \<Rightarrow> bool) \<Rightarrow> 'n cell \<Rightarrow> bool option" where
  \<comment> \<open>One element of \<open>Series.str.contains\<close>: a string is searched, anything else gives
      NaN (\<open>None\<close>).\<close>
  "str_contains m c = (case c of Str s \<Rightarrow> Some (m s) | NaN \<Rightarrow> None | Num x \<Rightarrow> None)"

definition filter_column :: "regex \<Rightarrow> 'n table \<Rightarrow> nat \<Rightarrow> string \<Rightarrow> exn + 'n table" where
  \<comment> \<open>\<open>dat[dat.iloc[:, index].str.contains(test_item)]\<close>. The \<open>.str\<close> accessor raises
      AttributeError on a numeric column; \<open>contains\<close> compiles the pattern first; a mask
      holding NaN cannot index (pandas raises ValueError; recent versions raise KeyError
      instead when every cell of the column is NaN).\<close>
  "filter_column re dat index test_item =
     (if length (columns dat) \<le> index then Inl IndexError
      else (case snd (columns dat ! index) of
         NumericT \<Rightarrow> Inl AttributeError
       | ObjectT \<Rightarrow>
          (case re test_item of
             None \<Rightarrow> Inl ReError
           | Some m \<Rightarrow>
              (if list_ex (\<lambda>r. str_contains m (cell_at r index) = None) (rows dat)
               then Inl ValueError
               else Inr (dat\<lparr>rows :=
                      filter (\<lambda>r. str_contains m (cell_at r index) = Some True) (rows dat)\<rparr>)))))"

fun filter_loop ::
  "regex \<Rightarrow> slot list \<Rightarrow> nat list \<Rightarrow> 'n table \<Rightarrow> (exn \<times> 'n table) + 'n table" where
  \<comment> \<open>The body of \<open>for index in range(test_cols)\<close>, over the indices still to visit. An
      exception leaves the loop with \<open>dat\<close> as the last successful slot left it.\<close>
  "filter_loop re filters [] dat = Inr dat"
| "filter_loop re filters (index # todo) dat =
     (if length filters \<le> index then Inl (IndexError, dat)
      else if slot_truthy (filters ! index)
      then (case filter_column re dat index (join_slot (filters ! index)) of
              Inl e \<Rightarrow> Inl (e, dat)
            | Inr dat' \<Rightarrow> filter_loop re filters todo dat')
      else filter_loop re filters todo dat)"

definition apply_filters :: "regex \<Rightarrow> 'n table \<Rightarrow> slot list \<Rightarrow> exn + 'n table" where
  \<comment> \<open>\<open>if filters:\<close> ... \<open>try:\<close> the loop \<open>except OSError: pass\<close>.\<close>
  "apply_filters re dat filters =
     (if filters = [] then Inr dat
      else (let test_cols = min (length (columns dat)) (length filters) in
        (case filter_loop re filters [0..<test_cols] dat of
           Inr dat' \<Rightarrow> Inr dat'
         | Inl (e, dat') \<Rightarrow> (if e = OSError then Inr dat' else Inl e))))"

section \<open>Cache file names (get_ilostat_dat lines 160-173)\<close>

definition reformat_date :: "string \<Rightarrow> string" where
  \<comment> \<open>\<open>last_toc_update[6:10] + last_toc_update[3:5] + last_toc_update[0:2]\<close>\<close>
  "reformat_date last_toc_update =
     slice 6 10 last_toc_update @ slice 3 5 last_toc_update @ slice 0 2 last_toc_update"

definition cache_file_name :: "string \<Rightarrow> string \<Rightarrow> string \<Rightarrow> string \<Rightarrow> string \<Rightarrow> string" where
  \<comment> \<open>\<open>cache_dir + '/' + segment + '-' + id + '-' + last_toc_update + '.' + cache_format\<close>\<close>
  "cache_file_name cache_dir segment ident last_toc_update cache_format =
     cache_dir @ ''/'' @ segment @ ''-'' @ ident @ ''-'' @ last_toc_update @ ''.'' @ cache_format"

section \<open>The world outside the module\<close>

text \<open>
  pandas, requests, the remote file service and the file system are not part of the
  repository. What they answer is a parameter (\<open>env\<close>); what the module changes or prints
  is the state. A file's content is represented by what \<open>pandas.read_csv\<close> makes of it: a
  table, or the exception the parse raises. \<open>read_csv\<close> returns a DataFrame whenever it
  returns; the module nevertheless tests \<open>type(toc) == DataFrame\<close>, so a result that is
  not a DataFrame is kept as a value (\<open>NotFrame\<close>, an object with none of a DataFrame's
  attributes). Other operating-system failures (an unwritable directory, a full disk)
  are not modelled: \<open>os.makedirs\<close> and the download's \<open>open\<close>/\<open>write\<close> succeed.
\<close>

datatype 'n pyobj = Frame "'n table" | NotFrame

type_synonym 'n filedata = "exn + 'n table"

datatype event =
  ReadCsvUrl string | ReadStata string | HttpGet string | WriteFile string
  | ReadCsvFile string | Remove string | MakeDirs string

record 'n env =
  re_compile :: regex
  gettempdir :: string
  read_csv_url :: "string \<Rightarrow> exn + 'n pyobj"
  read_stata :: "string \<Rightarrow> exn + 'n table"
  requests_get :: "string \<Rightarrow> exn + 'n filedata"
  search_titles :: "string \<Rightarrow> 'n table \<Rightarrow> exn + 'n table"
  df_append :: "'n table \<Rightarrow> 'n table \<Rightarrow> 'n table"

text \<open>
  \<open>read_csv_url\<close> is \<open>pandas.read_csv\<close> on a URL, \<open>read_stata\<close> is \<open>pandas.read_stata\<close> on a
  URL, \<open>requests_get\<close> is the body that \<open>requests.get\<close> streams (or the exception it
  raises), \<open>search_titles newsearch toc\<close> is the pandas pipeline of lines 385-389 of
  \<open>get_ilostat_toc\<close> (build the \<open>titles\<close> column, keep the rows containing \<open>newsearch\<close>,
  drop the column), and \<open>df_append\<close> is \<open>DataFrame.append(..., ignore_index=True)\<close>.
\<close>

record 'n state =
  files :: "string \<rightharpoonup> 'n filedata"
  dirs :: "string set"
  stdout :: "string list"
  trace :: "event list"

definition py_print :: "string \<Rightarrow> 'n state \<Rightarrow> 'n state" where
  "py_print line st = st\<lparr>stdout := stdout st @ [line]\<rparr>"

definition note_event :: "event \<Rightarrow> 'n state \<Rightarrow> 'n state" where
  "note_event ev st = st\<lparr>trace := trace st @ [ev]\<rparr>"

definition isfile :: "'n state \<Rightarrow> string \<Rightarrow> bool" where
  "isfile st path = (files st path \<noteq> None)"

definition os_remove :: "string option \<Rightarrow> 'n state \<Rightarrow> (exn + unit) \<times> 'n state" where
  \<comment> \<open>\<open>os.remove(name)\<close>, where \<open>name\<close> is a local variable: \<open>None\<close> when no assignment to
      it has run.\<close>
  "os_remove name st =
     (case name of
        None \<Rightarrow> (Inl UnboundLocalError, st)
      | Some path \<Rightarrow>
         (if isfile st path
          then (Inr (), note_event (Remove path) (st\<lparr>files := (files st)(path := None)\<rparr>))
          else (Inl OSError, st)))"

definition dirname :: "string \<Rightarrow> string" where
  \<comment> \<open>\<open>os.path.dirname\<close> of posixpath.\<close>
  "dirname p =
     (let head = rev (dropWhile (\<lambda>c. c \<noteq> CHR ''/'') (rev p)) in
      if head \<noteq> [] \<and> \<not> list_all (\<lambda>c. c = CHR ''/'') head
      then rev (dropWhile (\<lambda>c. c = CHR ''/'') (rev head)) else head)"

definition bulk_url :: string where
  "bulk_url = ''http://www.ilo.org/ilostat-files/WEB_bulk_download/''"

section \<open>get_ilostat_toc\<close>

datatype search = SearchList "string list" | SearchStr string

fun search_truthy :: "search \<Rightarrow> bool" where
  "search_truthy (SearchList xs) = (xs \<noteq> [])"
| "search_truthy (SearchStr s) = (s \<noteq> [])"

fun newsearch :: "search \<Rightarrow> string" where
  "newsearch (SearchList xs) = join '' and '' xs"
| "newsearch (SearchStr s) = s"

definition toc_url :: "string \<Rightarrow> string \<Rightarrow> string" where
  "toc_url segment lang =
     bulk_url @ segment @ ''/'' @ ''table_of_contents_'' @ lang @ ''.csv''"

definition is_model :: "string \<Rightarrow> bool" where
  \<comment> \<open>\<open>not segment.lower().find('model') == -1\<close>\<close>
  "is_model segment = (py_find (lower segment) ''model'' \<noteq> - 1)"

definition toc_search ::
  "'n env \<Rightarrow> search \<Rightarrow> 'n pyobj \<Rightarrow> 'n state \<Rightarrow> (exn + 'n pyobj) \<times> 'n state" where
  \<comment> \<open>lines 376-389\<close>
  "toc_search env search toc st =
     (if search_truthy search
      then (let st1 = py_print (newsearch search) st in
        (case toc of
           NotFrame \<Rightarrow> (Inl AttributeError, st1)
         | Frame t \<Rightarrow>
            (case search_titles env (newsearch search) t of
               Inl e \<Rightarrow> (Inl e, st1)
             | Inr t' \<Rightarrow> (Inr (Frame t'), st1))))
      else (Inr toc, st))"

definition toc_filter :: "'n env \<Rightarrow> slot list \<Rightarrow> 'n pyobj \<Rightarrow> exn + 'n pyobj" where
  \<comment> \<open>lines 391-416; \<open>len(toc.columns)\<close> stands before the \<open>try\<close>.\<close>
  "toc_filter env filters toc =
     (if filters = [] then Inr toc
      else (case toc of
         NotFrame \<Rightarrow> Inl AttributeError
       | Frame t \<Rightarrow>
          (case apply_filters (re_compile env) t filters of
             Inl e \<Rightarrow> Inl e
           | Inr t' \<Rightarrow> Inr (Frame t'))))"

definition get_ilostat_toc ::
  "'n env \<Rightarrow> string \<Rightarrow> string \<Rightarrow> search \<Rightarrow> slot list \<Rightarrow> 'n state
     \<Rightarrow> (exn + 'n pyobj) \<times> 'n state" where
  "get_ilostat_toc env segment lang search filters st =
     (let segment' = (if is_model segment then ''modelled_estimates'' else segment);
          lang' = (if is_model segment then ''en'' else lang);
          st1 = note_event (ReadCsvUrl (toc_url segment' lang')) st
      in (case read_csv_url env (toc_url segment' lang') of
            Inl e \<Rightarrow> (Inl e, st1)
          | Inr toc \<Rightarrow>
             (let st2 = (if toc = NotFrame
                         then py_print (''the toc file : '' @ bulk_url @ segment' @ ''/''
                                @ ''table_of_contents_'' @ lang' @ ''.csv does not exist'') st1
                         else st1)
              in (case toc_search env search toc st2 of
                    (Inl e, st3) \<Rightarrow> (Inl e, st3)
                  | (Inr toc', st3) \<Rightarrow> (toc_filter env filters toc', st3)))))"

section \<open>get_ilostat_raw\<close>

definition not_readable :: "string \<Rightarrow> string" where
  "not_readable ident = ''Dataset with id = '' @ ident @ '' does not exist or is not readable''"

definition raw_done ::
  "string \<Rightarrow> string \<Rightarrow> string \<Rightarrow> bool \<Rightarrow> 'n table \<Rightarrow> 'n state \<Rightarrow> (exn + 'n table) \<times> 'n state"
  where
  \<comment> \<open>lines 293-300: the closing \<open>print\<close> and \<open>return dat\<close>.\<close>
  "raw_done ident segment cache_format quiet dat st =
     (Inr dat, if quiet then st
               else py_print (bulk_url @ segment @ ''/'' @ ident @ ''.'' @ cache_format) st)"

definition get_ilostat_raw ::
  "'n env \<Rightarrow> string \<Rightarrow> string \<Rightarrow> string \<Rightarrow> string \<Rightarrow> string \<Rightarrow> bool \<Rightarrow> 'n state
     \<Rightarrow> (exn + 'n table) \<times> 'n state" where
  "get_ilostat_raw env ident segment cache_file cache_dir cache_format quiet st =
     (if segment = ''modelled_estimates''
      then (let base = bulk_url @ segment @ ''/'' @ ident @ ''.dta'';
                st1 = note_event (ReadStata base) st
        in (case read_stata env base of
              Inr dat \<Rightarrow> raw_done ident segment cache_format quiet dat st1
            | Inl e \<Rightarrow>
               (if e = OSError
                then (let st2 = (if quiet then st1 else py_print (not_readable ident) st1)
                  in (case os_remove None st2 of
                        (Inl e', st3) \<Rightarrow> (Inl e', st3)
                      | (Inr u, st3) \<Rightarrow> raw_done ident segment cache_format quiet DataFrame st3))
                else (Inl e, st1))))
      else (let base = bulk_url @ segment @ ''/'' @ ident @ ''.csv.gz'';
                tfile = replace_all (''.'' @ cache_format) ''.csv.gz'' cache_file;
                st1 = note_event (HttpGet base) st
        in (case requests_get env base of
              Inl e \<Rightarrow> (Inl e, st1)
            | Inr body \<Rightarrow>
               (let st2 = note_event (WriteFile tfile) (st1\<lparr>files := (files st1)(tfile \<mapsto> body)\<rparr>);
                    st3 = note_event (ReadCsvFile tfile) st2;
                    tried = (case body of
                        Inl e \<Rightarrow> (Inl e, st3)
                      | Inr dat \<Rightarrow>
                         (if cache_format \<noteq> ''csv.gz''
                          then (case os_remove (Some tfile) st3 of
                                  (Inl e, st4) \<Rightarrow> (Inl e, st4)
                                | (Inr u, st4) \<Rightarrow> (Inr dat, st4))
                          else (Inr dat, st3)))
                in (case tried of
                      (Inr dat, st4) \<Rightarrow> raw_done ident segment cache_format quiet dat st4
                    | (Inl e, st4) \<Rightarrow>
                       (if e = OSError
                        then (let st5 = (if quiet then st4 else py_print (not_readable ident) st4)
                          in (case os_remove (Some tfile) st5 of
                                (Inl e', st6) \<Rightarrow> (Inl e', st6)
                              | (Inr u, st6) \<Rightarrow> (Inr DataFrame, st6)))
                        else (Inl e, st4)))))))"

section \<open>get_ilostat_dat\<close>

definition read_cache ::
  "string \<Rightarrow> string \<Rightarrow> bool \<Rightarrow> 'n state \<Rightarrow> (exn + 'n table) \<times> 'n state" where
  \<comment> \<open>lines 195-199: \<open>pandas.read_csv(cache_file, ...)\<close> and the message.\<close>
  "read_cache ident cache_file quiet st =
     (let st1 = note_event (ReadCsvFile cache_file) st in
      (case files st cache_file of
         None \<Rightarrow> (Inl OSError, st1)
       | Some (Inl e) \<Rightarrow> (Inl e, st1)
       | Some (Inr dat) \<Rightarrow>
          (Inr dat, if quiet then st1
                    else py_print (''Table '' @ ident @ '' read from cache file: ''
                           @ dirname cache_file) st1)))"

definition fetch_or_load ::
  "'n env \<Rightarrow> string \<Rightarrow> string \<Rightarrow> bool \<Rightarrow> bool \<Rightarrow> string \<Rightarrow> string \<Rightarrow> bool \<Rightarrow> string
     \<Rightarrow> 'n state \<Rightarrow> (exn + 'n table) \<times> 'n state" where
  \<comment> \<open>lines 166-199, with \<open>last_toc_update\<close> already reformatted. \<open>cache_dir\<close> is falsy
      when it is \<open>''\<close> (or the default \<open>[]\<close>).\<close>
  "fetch_or_load env ident segment cache cache_update cache_dir cache_format quiet
       last_toc_update st =
     (let cache_dir' = (if cache_dir = [] then gettempdir env @ ''/ilostat'' else cache_dir);
          st1 = (if cache_dir' \<in> dirs st then st
                 else note_event (MakeDirs cache_dir') (st\<lparr>dirs := insert cache_dir' (dirs st)\<rparr>));
          cache_file = cache_file_name cache_dir' segment ident last_toc_update cache_format;
          up_to_date = (cache \<and> cache_update \<and> isfile st1 cache_file);
          cache_update' = (if up_to_date then False else cache_update);
          st2 = (if up_to_date \<and> \<not> quiet
                 then py_print (''Table '' @ ident @ '' is up to date'') st1 else st1)
      in (if \<not> cache \<or> cache_update' \<or> \<not> isfile st2 cache_file
          then get_ilostat_raw env ident segment cache_file cache_dir' cache_format quiet st2
          else read_cache ident cache_file quiet st2))"

definition get_ilostat_dat ::
  "'n env \<Rightarrow> string \<Rightarrow> string \<Rightarrow> slot list \<Rightarrow> bool \<Rightarrow> bool \<Rightarrow> string \<Rightarrow> string \<Rightarrow> bool
     \<Rightarrow> 'n state \<Rightarrow> (exn + 'n table) \<times> 'n state" where
  "get_ilostat_dat env ident segment filters cache cache_update cache_dir cache_format quiet st =
     (case get_ilostat_toc env segment ''en'' (SearchList []) [SlotStr ident] st of
        (Inl e, st1) \<Rightarrow> (Inl e, st1)
      | (Inr NotFrame, st1) \<Rightarrow> (Inl TypeError, st1)
      | (Inr (Frame toc), st1) \<Rightarrow>
         (case column_index ''last.update'' toc of
            None \<Rightarrow> (Inl KeyError, st1)
          | Some k \<Rightarrow>
             (case rows toc of
                [] \<Rightarrow>
                 (Inr DataFrame,
                  if quiet then st1
                  else py_print (''Dataset with id = '' @ ident
                         @ ''does not exist or is not readable'') st1)
              | r # others \<Rightarrow>
                 (case cell_at r k of
                    Str last_toc_update \<Rightarrow>
                     (case fetch_or_load env ident segment cache cache_update cache_dir
                             cache_format quiet (reformat_date last_toc_update) st1 of
                        (Inl e, st2) \<Rightarrow> (Inl e, st2)
                      | (Inr dat, st2) \<Rightarrow> (apply_filters (re_compile env) dat filters, st2))
                  | NaN \<Rightarrow> (Inl TypeError, st1)
                  | Num x \<Rightarrow> (Inl TypeError, st1)))))"

section \<open>get_ilostat\<close>

datatype 'n id_arg = IdStr string | IdList "string list" | IdFrame "'n table"

fun unique_acc :: "'a list \<Rightarrow> 'a list \<Rightarrow> 'a list" where
  "unique_acc seen [] = rev seen"
| "unique_acc seen (x # xs) =
     (if x \<in> set seen then unique_acc seen xs else unique_acc (x # seen) xs)"

definition unique :: "'a list \<Rightarrow> 'a list" where
  \<comment> \<open>\<open>Series.unique()\<close> and \<open>drop_duplicates(keep = 'first')\<close>: first occurrences, in
      order.\<close>
  "unique xs = unique_acc [] xs"

datatype 'n ref_id = RefList "'n cell list" | RefOne "'n cell"

definition normalize_id :: "'n id_arg \<Rightarrow> exn + 'n ref_id option" where
  \<comment> \<open>lines 90-97: only a DataFrame is normalized; \<open>id.id\<close> needs a column called
      \<open>id\<close>, and \<open>ref_id[0]\<close> needs a row.\<close>
  "normalize_id ident =
     (case ident of
        IdFrame df \<Rightarrow>
         (case column_index ''id'' df of
            None \<Rightarrow> Inl AttributeError
          | Some k \<Rightarrow>
             (let ref_id = unique (map (\<lambda>r. cell_at r k) (rows df)) in
              if \<not> 1 < length ref_id
              then (case ref_id of [] \<Rightarrow> Inl IndexError | x # xs \<Rightarrow> Inr (Some (RefOne x)))
              else Inr (Some (RefList ref_id))))
      | IdStr s \<Rightarrow> Inr None
      | IdList ids \<Rightarrow> Inr None)"

fun append_datasets ::
  "'n env \<Rightarrow> string list \<Rightarrow> string \<Rightarrow> slot list \<Rightarrow> bool \<Rightarrow> bool \<Rightarrow> string \<Rightarrow> string \<Rightarrow> bool
     \<Rightarrow> 'n table \<Rightarrow> 'n state \<Rightarrow> (exn + 'n table) \<times> 'n state" where
  \<comment> \<open>lines 117-119: \<open>for i in range(1, len(id))\<close>, over the ids still to fetch.\<close>
  "append_datasets env [] segment filters cache cache_update cache_dir cache_format quiet dat st =
     (Inr dat, st)"
| "append_datasets env (i # todo) segment filters cache cache_update cache_dir cache_format quiet
       dat st =
     (case get_ilostat_dat env i segment filters cache cache_update cache_dir cache_format quiet st of
        (Inl e, st1) \<Rightarrow> (Inl e, st1)
      | (Inr d, st1) \<Rightarrow>
         append_datasets env todo segment filters cache cache_update cache_dir cache_format quiet
           (df_append env dat d) st1)"

definition get_ilostat ::
  "'n env \<Rightarrow> 'n id_arg \<Rightarrow> string \<Rightarrow> slot list \<Rightarrow> bool \<Rightarrow> bool \<Rightarrow> string \<Rightarrow> string \<Rightarrow> bool
     \<Rightarrow> 'n state \<Rightarrow> (exn + 'n table) \<times> 'n state" where
  \<comment> \<open>\<open>dat\<close> is assigned under \<open>type(id) == str\<close> and under \<open>type(id) == list\<close> only; the
      closing \<open>return dat\<close> reads it.\<close>
  "get_ilostat env ident segment filters cache cache_update cache_dir cache_format quiet st =
     (case normalize_id ident of
        Inl e \<Rightarrow> (Inl e, st)
      | Inr ref_id \<Rightarrow>
         (let segment' = (if is_model segment then ''modelled_estimates'' else segment) in
          (case ident of
             IdStr s \<Rightarrow>
              get_ilostat_dat env s segment' filters cache cache_update cache_dir cache_format
                quiet st
           | IdList ids \<Rightarrow>
              (case ids of
                 [] \<Rightarrow> (Inl IndexError, st)
               | i0 # todo \<Rightarrow>
                  (case get_ilostat_dat env i0 segment' filters cache cache_update cache_dir
                          cache_format quiet st of
                     (Inl e, st1) \<Rightarrow> (Inl e, st1)
                   | (Inr dat, st1) \<Rightarrow>
                      append_datasets env todo segment' filters cache cache_update cache_dir
                        cache_format quiet dat st1))
           | IdFrame df \<Rightarrow> (Inl UnboundLocalError, st))))"

section \<open>get_ilostat_dic and label_ilostat\<close>

definition get_ilostat_dic ::
  "'n env \<Rightarrow> string \<Rightarrow> string \<Rightarrow> 'n state \<Rightarrow> (exn + 'n pyobj) \<times> 'n state" where
  "get_ilostat_dic env dic lang st =
     (let diclang = lower dic @ ''_'' @ lower lang;
          st1 = note_event (ReadCsvUrl (bulk_url @ ''dic/'' @ diclang @ ''.csv'')) st
      in (case read_csv_url env (bulk_url @ ''dic/'' @ diclang @ ''.csv'') of
            Inl e \<Rightarrow> (Inl e, st1)
          | Inr d \<Rightarrow>
             (Inr d,
              if d = NotFrame
              then py_print (''the dic file : '' @ bulk_url @ ''dic/'' @ diclang
                     @ ''.csv does not exist'') st1
              else st1)))"

text \<open>
  The vector argument \<open>x\<close> of \<open>label_ilostat\<close> is a Python list of text codes or a pandas
  Series of text codes with its name (\<open>None\<close> when it has none); the third shape is a
  DataFrame. \<open>pandas.DataFrame(x, columns = [dic])\<close> keeps the values of a list and of a
  Series without a name; a Series with a name is aligned on it, so any name other than
  \<open>dic\<close> gives a column of NaN.
\<close>

datatype vector = PyList "string list" | Series "string option" "string list"

datatype 'n x_arg = XVector vector | XFrame "'n table"

definition one_column :: "string \<Rightarrow> string option \<Rightarrow> string list \<Rightarrow> 'n cell list" where
  "one_column dic name codes =
     (if name = None \<or> name = Some dic then map Str codes else map (\<lambda>c. NaN) codes)"

definition is_Str :: "'n cell \<Rightarrow> bool" where
  "is_Str c = (case c of Str s \<Rightarrow> True | NaN \<Rightarrow> False | Num x \<Rightarrow> False)"

definition other_cells :: "nat \<Rightarrow> nat \<Rightarrow> 'n cell list \<Rightarrow> 'n cell list" where
  \<comment> \<open>The cells of a row of \<open>n\<close> columns but the one at \<open>k\<close>.\<close>
  "other_cells n k r = map (cell_at r) (filter (\<lambda>i. i \<noteq> k) [0..<n])"

definition merge_left :: "string \<Rightarrow> 'n cell list \<Rightarrow> 'n table \<Rightarrow> exn + 'n table" where
  \<comment> \<open>\<open>pandas.merge(left, right, how = 'left', on = [dic])\<close> for a \<open>left\<close> of the single
      column \<open>dic\<close>: KeyError when \<open>right\<close> has no such column; ValueError when both
      sides have rows and one key column is text while the other is numeric (a column of
      NaN only is float64); every left row in order, with each right row of the same key
      in order, or once with NaN when there is none.\<close>
  "merge_left dic left right =
     (case column_index dic right of
        None \<Rightarrow> Inl KeyError
      | Some k \<Rightarrow>
         (if left \<noteq> [] \<and> rows right \<noteq> []
              \<and> (list_ex is_Str left \<noteq> (snd (columns right ! k) = ObjectT))
          then Inl ValueError
          else (let n = length (columns right) in
            Inr \<lparr>columns = (dic, ObjectT) # map (\<lambda>i. columns right ! i) (filter (\<lambda>i. i \<noteq> k) [0..<n]),
                 rows = concat (map (\<lambda>c.
                   (case filter (\<lambda>r. cell_at r k = c) (rows right) of
                      [] \<Rightarrow> [c # replicate (n - 1) NaN]
                    | m # ms \<Rightarrow> map (\<lambda>r. c # other_cells n k r) (m # ms))) left)\<rparr>)))"

definition second_column :: "'n table \<Rightarrow> exn + 'n cell list" where
  \<comment> \<open>\<open>list(y.iloc[:, [0, 1]].iloc[:, 1])\<close>\<close>
  "second_column t =
     (if length (columns t) < 2 then Inl IndexError else Inr (map (\<lambda>r. cell_at r 1) (rows t)))"

definition str_of :: "'n cell \<Rightarrow> string" where
  "str_of c = (case c of Str s \<Rightarrow> s | NaN \<Rightarrow> [] | Num x \<Rightarrow> [])"

definition join_labels :: "'n cell list \<Rightarrow> exn + string" where
  \<comment> \<open>\<open>' | '.join(labels)\<close>: TypeError unless every item is a string.\<close>
  "join_labels labels =
     (if list_all is_Str labels then Inr (join '' | '' (map str_of labels)) else Inl TypeError)"

function string_of_nat :: "nat \<Rightarrow> string" where
  "string_of_nat n =
     (if n < 10 then [char_of (48 + n)]
      else string_of_nat (n div 10) @ [char_of (48 + n mod 10)])"
  by pat_completeness auto
termination
  by (relation "measure id") auto

definition note_label :: "string \<Rightarrow> 'n table \<Rightarrow> string \<Rightarrow> 'n state \<Rightarrow> (exn + string) \<times> 'n state"
  where
  \<comment> \<open>lines 508-513, one turn of the loop: split the composite code, print how many
      pieces, join each piece's label.\<close>
  "note_label dic dic_df composite st =
     (let test = split_on CHR ''_'' composite;
          st1 = py_print (string_of_nat (length test)) st
      in (case merge_left dic (map Str test) dic_df of
            Inl e \<Rightarrow> (Inl e, st1)
          | Inr merged \<Rightarrow>
             (case second_column merged of
                Inl e \<Rightarrow> (Inl e, st1)
              | Inr labels \<Rightarrow> (join_labels labels, st1))))"

fun note_labels ::
  "string \<Rightarrow> 'n table \<Rightarrow> string list \<Rightarrow> 'n state \<Rightarrow> (exn + (string \<times> string) list) \<times> 'n state"
  where
  \<comment> \<open>lines 507-514: the loop over the rows of \<open>z\<close>, giving each its label.\<close>
  "note_labels dic dic_df [] st = (Inr [], st)"
| "note_labels dic dic_df (composite # todo) st =
     (case note_label dic dic_df composite st of
        (Inl e, st1) \<Rightarrow> (Inl e, st1)
      | (Inr lab, st1) \<Rightarrow>
         (case note_labels dic dic_df todo st1 of
            (Inl e, st2) \<Rightarrow> (Inl e, st2)
          | (Inr labs, st2) \<Rightarrow> (Inr ((composite, lab) # labs), st2)))"

definition z_table :: "string \<Rightarrow> (string \<times> string) list \<Rightarrow> 'n table" where
  "z_table dic labelled =
     \<lparr>columns = [(dic, ObjectT), (dic @ ''.label'', ObjectT)],
      rows = map (\<lambda>(c, l). [Str c, Str l]) labelled\<rparr>"

definition ilostat_cols_ref :: "string list" where
  "ilostat_cols_ref =
     [''collection'', ''collection.label'', ''ref_area'', ''ref_area.label'', ''source'',
      ''source.label'', ''indicator'', ''indicator.label'', ''sex'', ''sex.label'', ''classif1'',
      ''classif1.label'', ''classif2'', ''classif2.label'', ''time'', ''obs_value'',
      ''obs_status'', ''obs_status.label'', ''note_classif'', ''note_classif.label'',
      ''note_indicator'', ''note_indicator.label'', ''note_source'', ''note_source.label'']"

definition repr_list :: "string list \<Rightarrow> string" where
  "repr_list xs = ''['' @ join '', '' (map (\<lambda>x. [CHR 0x27] @ x @ [CHR 0x27]) xs) @ '']''"

datatype 'n labelled = Labels "'n cell list" | LabelFrame "'n table"

definition label_vector ::
  "string \<Rightarrow> 'n table \<Rightarrow> vector \<Rightarrow> 'n state \<Rightarrow> (exn + 'n cell list) \<times> 'n state" where
  \<comment> \<open>lines 497-517, with the dictionary read. \<open>drop_duplicates\<close> is a method of a Series,
      not of a list; \<open>z[dic]\<close> and the last merge need the Series to be called \<open>dic\<close>;
      \<open>dropna\<close> finds nothing to drop among text codes.\<close>
  "label_vector dic dic_df x st =
     (if py_find (lower dic) ''note_'' = - 1
      then (case x of
          PyList codes \<Rightarrow>
           (case merge_left dic (one_column dic None codes) dic_df of
              Inl e \<Rightarrow> (Inl e, st) | Inr y \<Rightarrow> (second_column y, st))
        | Series name codes \<Rightarrow>
           (case merge_left dic (one_column dic name codes) dic_df of
              Inl e \<Rightarrow> (Inl e, st) | Inr y \<Rightarrow> (second_column y, st)))
      else (case x of
          PyList codes \<Rightarrow> (Inl AttributeError, st)
        | Series name codes \<Rightarrow>
           (if name \<noteq> Some dic then (Inl KeyError, st)
            else (case note_labels dic dic_df (unique codes) st of
               (Inl e, st1) \<Rightarrow> (Inl e, st1)
             | (Inr labelled, st1) \<Rightarrow>
                (case merge_left dic (one_column dic name codes) (z_table dic labelled) of
                   Inl e \<Rightarrow> (Inl e, st1) | Inr y \<Rightarrow> (second_column y, st1))))))"

definition label_ilostat ::
  "'n env \<Rightarrow> 'n x_arg \<Rightarrow> string \<Rightarrow> string list \<Rightarrow> string \<Rightarrow> 'n state
     \<Rightarrow> (exn + 'n labelled) \<times> 'n state" where
  \<comment> \<open>In table mode \<open>code[0]\<close> is read exactly when \<open>code\<close> is empty. A dictionary
      that is not a DataFrame (which \<open>read_csv\<close> never returns) is refused by
      \<open>pandas.merge\<close> with TypeError; the model raises it before the branch on
      \<open>note_\<close>.\<close>
  "label_ilostat env x dic code lang st =
     (if dic = [] then (Inr (LabelFrame DataFrame), py_print ''Dictionary information is missing'' st)
      else (case x of
         XFrame df \<Rightarrow>
          (if code = [] then (Inl IndexError, st)
           else (Inr (LabelFrame DataFrame), py_print (repr_list ilostat_cols_ref) st))
       | XVector v \<Rightarrow>
          (case get_ilostat_dic env dic lang st of
             (Inl e, st1) \<Rightarrow> (Inl e, st1)
           | (Inr NotFrame, st1) \<Rightarrow> (Inl TypeError, st1)
           | (Inr (Frame dic_df), st1) \<Rightarrow>
              (case label_vector dic dic_df v st1 of
                 (Inl e, st2) \<Rightarrow> (Inl e, st2) | (Inr y, st2) \<Rightarrow> (Inr (Labels y), st2)))))"

section \<open>Notions used to state the properties\<close>

definition slot_keeps :: "regex \<Rightarrow> slot list \<Rightarrow> 'n cell list \<Rightarrow> nat \<Rightarrow> bool" where
  \<comment> \<open>The row passes slot \<open>i\<close>: the slot is empty, or the cell in column \<open>i\<close> is a string
      in which the slot's pattern is found.\<close>
  "slot_keeps re filters r i =
     (if slot_truthy (filters ! i)
      then (case re (join_slot (filters ! i)) of
              None \<Rightarrow> False
            | Some m \<Rightarrow> str_contains m (cell_at r i) = Some True)
      else True)"


definition re_literals :: regex where
  \<comment> \<open>Python's \<open>re\<close> on the patterns whose only metacharacter is \<open>|\<close>: such a pattern
      compiles, and it is found in a string exactly when one of its alternatives is a
      substring.\<close>
  "re_literals pat = Some (\<lambda>s. list_ex (\<lambda>alt. py_find s alt \<noteq> - 1) (split_on CHR ''|'' pat))"


definition lookup_label :: "'n table \<Rightarrow> string \<Rightarrow> 'n cell" where
  \<comment> \<open>The cell in the second column of the first row whose first column is the code, or
      NaN when the table has no such row.\<close>
  "lookup_label t c =
     (case find (\<lambda>r. cell_at r 0 = Str c) (rows t) of None \<Rightarrow> NaN | Some r \<Rightarrow> cell_at r 1)"



subsection \<open>A small world for the concrete instances\<close>

definition example_toc :: "nat table" where
  "example_toc =
     \<lparr>columns = [(''id'', ObjectT), (''last.update'', ObjectT)],
      rows = [[Str ''A_X'', Str ''01.01.2020'']]\<rparr>"

definition example_data :: "nat table" where
  "example_data =
     \<lparr>columns = [(''ref_area'', ObjectT), (''obs_value'', NumericT)],
      rows = [[Str ''FRA'', Num 7], [Str ''ITA'', Num 9]]\<rparr>"

definition example_dic :: "nat table" where
  "example_dic =
     \<lparr>columns = [(''note_source'', ObjectT), (''note_source.label'', ObjectT)],
      rows = [[Str ''A'', Str ''Alpha''], [Str ''B'', Str ''Beta'']]\<rparr>"

definition example_sex :: "nat table" where
  "example_sex =
     \<lparr>columns = [(''sex'', ObjectT), (''sex.label'', ObjectT), (''sex.sort'', ObjectT)],
      rows = [[Str ''SEX_T'', Str ''Sex: Total'', Str ''1''],
              [Str ''SEX_M'', Str ''Sex: Male'', Str ''2'']]\<rparr>"

definition example_env :: "nat env" where
  \<comment> \<open>One dataset \<open>A_X\<close> in the indicator segment, two dictionaries, nothing else on the
      server.\<close>
  "example_env =
     \<lparr>re_compile = re_literals,
      gettempdir = ''/tmp'',
      read_csv_url = (\<lambda>url.
        if url = bulk_url @ ''indicator/table_of_contents_en.csv'' then Inr (Frame example_toc)
        else if url = bulk_url @ ''dic/note_source_en.csv'' then Inr (Frame example_dic)
        else if url = bulk_url @ ''dic/sex_en.csv'' then Inr (Frame example_sex)
        else Inl OSError),
      read_stata = (\<lambda>url. Inl OSError),
      requests_get = (\<lambda>url.
        if url = bulk_url @ ''indicator/A_X.csv.gz'' then Inr (Inr example_data)
        else Inr (Inl OSError)),
      search_titles = (\<lambda>pat t. Inr t),
      df_append = (\<lambda>a b. a\<lparr>rows := rows a @ rows b\<rparr>)\<rparr>"

definition example_state :: "string list \<Rightarrow> nat state" where
  \<comment> \<open>The cache directory \<open>/tmp/ilostat\<close> holding the given files, each a copy of the
      dataset.\<close>
  "example_state cached =
     \<lparr>files = (\<lambda>path. if path \<in> set cached then Some (Inr example_data) else None),
      dirs = {''/tmp/ilostat''},
      stdout = [],
      trace = []\<rparr>"

section \<open>The filter step: how the loop runs\<close>

lemma filter_column_Inr:
  "filter_column re dat i pat = Inr dat' \<Longrightarrow>
     i < length (columns dat) \<and> snd (columns dat ! i) = ObjectT \<and>
     (\<exists>m. re pat = Some m \<and> (\<forall>r\<in>set (rows dat). str_contains m (cell_at r i) \<noteq> None)
        \<and> dat' = dat\<lparr>rows := filter (\<lambda>r. str_contains m (cell_at r i) = Some True) (rows dat)\<rparr>)"
  by (auto simp: filter_column_def list_ex_iff split: if_splits dtype.splits option.splits)

lemma filter_column_not_OSError: "filter_column re dat i pat \<noteq> Inl OSError"
  by (auto simp: filter_column_def split: if_splits dtype.splits option.splits)

lemma filter_loop_Inl: "filter_loop re fs todo dat = Inl (e, d) \<Longrightarrow> e \<noteq> OSError"
proof (induction todo arbitrary: dat)
  case Nil
  then show ?case by simp
next
  case (Cons i todo)
  then show ?case
    using filter_column_not_OSError[of re dat i]
    by (auto split: if_splits sum.splits)
qed

lemma filter_loop_Inr:
  "filter_loop re fs todo dat = Inr dat' \<Longrightarrow>
     columns dat' = columns dat \<and>
     rows dat' = filter (\<lambda>r. list_all (slot_keeps re fs r) todo) (rows dat)"
proof (induction todo arbitrary: dat)
  case Nil
  then show ?case by simp
next
  case (Cons i todo)
  show ?case
  proof (cases "slot_truthy (fs ! i)")
    case False
    with Cons show ?thesis by (auto simp: slot_keeps_def split: if_splits)
  next
    case True
    with Cons.prems obtain d where d: "filter_column re dat i (join_slot (fs ! i)) = Inr d"
      and rest: "filter_loop re fs todo d = Inr dat'"
      by (auto split: if_splits sum.splits)
    from filter_column_Inr[OF d] obtain m where m: "re (join_slot (fs ! i)) = Some m"
      and dd: "d = dat\<lparr>rows := filter (\<lambda>r. str_contains m (cell_at r i) = Some True) (rows dat)\<rparr>"
      by blast
    from Cons.IH[OF rest] have "columns dat' = columns d"
      and "rows dat' = filter (\<lambda>r. list_all (slot_keeps re fs r) todo) (rows d)" by auto
    moreover have k: "\<And>r. slot_keeps re fs r i = (str_contains m (cell_at r i) = Some True)"
      using m True by (simp add: slot_keeps_def)
    ultimately show ?thesis using dd by (simp add: k)
  qed
qed


lemma filter_loop_fixpoint:
  "list_all (\<lambda>i. i < length fs \<and> (slot_truthy (fs ! i) \<longrightarrow>
       i < length (columns dat) \<and> snd (columns dat ! i) = ObjectT
       \<and> re (join_slot (fs ! i)) \<noteq> None)) todo \<Longrightarrow>
   list_all (\<lambda>r. list_all (slot_keeps re fs r) todo) (rows dat) \<Longrightarrow>
   filter_loop re fs todo dat = Inr dat"
proof (induction todo)
  case Nil
  then show ?case by simp
next
  case (Cons i todo)
  show ?case
  proof (cases "slot_truthy (fs ! i)")
    case False
    with Cons show ?thesis by (simp add: list_all_iff)
  next
    case True
    with Cons.prems(1) obtain m where m: "re (join_slot (fs ! i)) = Some m"
      and i: "i < length fs" "i < length (columns dat)" "snd (columns dat ! i) = ObjectT"
      by auto
    have keep: "\<forall>r\<in>set (rows dat). str_contains m (cell_at r i) = Some True"
      using Cons.prems(2) m True by (auto simp: list_all_iff slot_keeps_def)
    then have "filter (\<lambda>r. str_contains m (cell_at r i) = Some True) (rows dat) = rows dat"
      by (simp add: filter_id_conv)
    moreover have "\<not> list_ex (\<lambda>r. str_contains m (cell_at r i) = None) (rows dat)"
      using keep by (auto simp: list_ex_iff)
    ultimately have "filter_column re dat i (join_slot (fs ! i)) = Inr dat"
      using m i by (simp add: filter_column_def)
    moreover have "filter_loop re fs todo dat = Inr dat"
      using Cons by (simp add: list_all_iff)
    ultimately show ?thesis using True i by simp
  qed
qed

lemma filter_loop_Inr_applied:
  "filter_loop re fs todo dat = Inr dat' \<Longrightarrow>
     list_all (\<lambda>i. i < length fs \<and> (slot_truthy (fs ! i) \<longrightarrow>
       i < length (columns dat) \<and> snd (columns dat ! i) = ObjectT
       \<and> re (join_slot (fs ! i)) \<noteq> None)) todo"
proof (induction todo arbitrary: dat)
  case Nil
  then show ?case by simp
next
  case (Cons i todo)
  show ?case
  proof (cases "slot_truthy (fs ! i)")
    case False
    with Cons show ?thesis by (auto split: if_splits)
  next
    case True
    with Cons.prems obtain d where d: "filter_column re dat i (join_slot (fs ! i)) = Inr d"
      and rest: "filter_loop re fs todo d = Inr dat'" and i: "i < length fs"
      by (auto split: if_splits sum.splits)
    from filter_column_Inr[OF d] have c: "i < length (columns dat)"
      "snd (columns dat ! i) = ObjectT" "re (join_slot (fs ! i)) \<noteq> None"
      and dd: "columns d = columns dat" by auto
    from Cons.IH[OF rest] dd c i show ?thesis by simp
  qed
qed

lemma apply_filters_Inr:
  "apply_filters re dat filters = Inr dat' \<Longrightarrow>
     filter_loop re filters [0..<min (length (columns dat)) (length filters)] dat = Inr dat'"
  using filter_loop_Inl[of re filters "[0..<min (length (columns dat)) (length filters)]" dat]
  by (auto simp: apply_filters_def Let_def split: if_splits sum.splits)


lemma filter_loop_skip:
  "list_all (\<lambda>i. i < length fs \<and> \<not> slot_truthy (fs ! i)) skipped \<Longrightarrow>
     filter_loop re fs (skipped @ todo) dat = filter_loop re fs todo dat"
  by (induction skipped) auto


section \<open>Filter semantics\<close>



section \<open>Filter idempotence\<close>

text \<open>
  Claim C9. Applying the filter step to its own result with the same filter list gives
  that result again; when the first application raises, there is no result to filter
  and the exception is the outcome of both.
\<close>

theorem filter_idempotent:
  "(case apply_filters re dat filters of
      Inl e \<Rightarrow> Inl e
    | Inr dat' \<Rightarrow> apply_filters re dat' filters) = apply_filters re dat filters"
proof (cases "apply_filters re dat filters")
  case (Inl e)
  then show ?thesis by simp
next
  case (Inr dat')
  let ?n = "min (length (columns dat)) (length filters)"
  from apply_filters_Inr[OF Inr] have loop: "filter_loop re filters [0..<?n] dat = Inr dat'" .
  from filter_loop_Inr[OF loop] have cols: "columns dat' = columns dat"
    and rws: "rows dat' = filter (\<lambda>r. list_all (slot_keeps re filters r) [0..<?n]) (rows dat)"
    by auto
  from filter_loop_Inr_applied[OF loop] cols
  have ok: "list_all (\<lambda>i. i < length filters \<and> (slot_truthy (filters ! i) \<longrightarrow>
       i < length (columns dat') \<and> snd (columns dat' ! i) = ObjectT
       \<and> re (join_slot (filters ! i)) \<noteq> None)) [0..<?n]" by simp
  have "list_all (\<lambda>r. list_all (slot_keeps re filters r) [0..<?n]) (rows dat')"
    unfolding rws by (simp add: list_all_iff)
  from filter_loop_fixpoint[OF ok this] cols
  have "apply_filters re dat' filters = Inr dat'"
    by (simp add: apply_filters_def)
  with Inr show ?thesis by simp
qed

theorem filter_idempotent_witness:
  "apply_filters re_literals
       (\<lparr>columns = [(''ref_area'', ObjectT), (''sex'', ObjectT)],
         rows = [[Str ''FRA'', Str ''SEX_T'']]\<rparr> :: nat table)
       [SlotList [''FRA'', ''DEU''], SlotStr ''T'']
   = Inr \<lparr>columns = [(''ref_area'', ObjectT), (''sex'', ObjectT)],
          rows = [[Str ''FRA'', Str ''SEX_T'']]\<rparr>"
proof -
  let ?T = "\<lparr>columns = [(''ref_area'', ObjectT), (''sex'', ObjectT)],
         rows = [[Str ''FRA'', Str ''SEX_T''], [Str ''FRA'', Str ''SEX_M''],
                 [Str ''ITA'', Str ''SEX_T'']]\<rparr> :: nat table"
  let ?F = "[SlotList [''FRA'', ''DEU''], SlotStr ''T'']"
  have once: "apply_filters re_literals ?T ?F
     = Inr \<lparr>columns = [(''ref_area'', ObjectT), (''sex'', ObjectT)],
          rows = [[Str ''FRA'', Str ''SEX_T'']]\<rparr>"
    by (simp add: apply_filters_def filter_column_def re_literals_def py_find_def
        str_contains_def cell_at_def upt_conv_Cons)
  from filter_idempotent[where re = re_literals and dat = ?T and filters = ?F] show ?thesis
    unfolding once by simp
qed

section \<open>Exceptions of the filter step\<close>

text \<open>
  Claim C3 says that the filter step never raises. The handler around the loop is
  \<open>except OSError\<close>, and no operation of the loop raises an OSError, so every exception
  of the loop reaches the caller: a non-empty slot on a numeric column (\<open>obs_value\<close>,
  \<open>n.records\<close>), reached after empty slots only, makes the step raise AttributeError.
\<close>

theorem filter_exception_propagates:
  assumes "index < length (columns dat)" and "index < length filters"
    and "list_all (\<lambda>i. \<not> slot_truthy (filters ! i)) [0..<index]"
    and "slot_truthy (filters ! index)"
    and "snd (columns dat ! index) = NumericT"
  shows "apply_filters re dat filters = Inl AttributeError"
proof -
  let ?n = "min (length (columns dat)) (length filters)"
  have split: "[0..<?n] = [0..<index] @ index # [Suc index..<?n]"
    using assms(1,2) by (metis min_less_iff_conj upt_add_eq_append upt_conv_Cons zero_le le_add_diff_inverse less_imp_le)
  have "list_all (\<lambda>i. i < length filters \<and> \<not> slot_truthy (filters ! i)) [0..<index]"
    using assms(2,3) by (auto simp: list_all_iff)
  from filter_loop_skip[OF this]
  have "filter_loop re filters [0..<?n] dat = filter_loop re filters (index # [Suc index..<?n]) dat"
    unfolding split .
  also have "\<dots> = Inl (AttributeError, dat)"
    using assms by (simp add: filter_column_def)
  finally show ?thesis using assms(2) by (auto simp: apply_filters_def)
qed

theorem filter_exception_propagates_witness:
  "apply_filters re_literals
     (\<lparr>columns = [(''ref_area'', ObjectT), (''time'', ObjectT), (''obs_value'', NumericT)],
       rows = [[Str ''FRA'', Str ''2019'', Num 7], [Str ''ITA'', Str ''2019'', Num 9]]\<rparr> :: nat table)
     [SlotList [], SlotList [], SlotList [''7'']] = Inl AttributeError"
  by (rule filter_exception_propagates[where index = 2]) (simp_all add: upt_conv_Cons)

text \<open>
  A text column holding a NaN under a non-empty slot raises as well.
\<close>

lemma filter_missing_value_raises:
  "apply_filters re_literals
     (\<lparr>columns = [(''ref_area'', ObjectT), (''sex'', ObjectT)],
       rows = [[Str ''FRA'', Str ''SEX_T''], [Str ''FRA'', NaN]]\<rparr> :: nat table)
     [SlotList [], SlotList [''SEX_T'']] = Inl ValueError"
  by (simp add: apply_filters_def filter_column_def re_literals_def str_contains_def cell_at_def
      upt_conv_Cons)

section \<open>The date in the cache file name\<close>

text \<open>
  Claim C6. A \<open>last.update\<close> string of the layout \<open>DD.MM.YYYY\<close> (ten characters) is
  reordered to \<open>YYYYMMDD\<close>, characters 6-9, then 3-4, then 0-1; \<open>01.01.2020\<close> becomes
  \<open>20200101\<close>; and the cache file name embeds that string between the id and the
  format extension.
\<close>

theorem reformat_date_layout:
  "reformat_date [da, db, p, ma, mb, q, ya, yb, yc, yd] = [ya, yb, yc, yd, ma, mb, da, db]
   \<and> reformat_date ''01.01.2020'' = ''20200101''
   \<and> cache_file_name cache_dir segment ident
        (reformat_date [da, db, p, ma, mb, q, ya, yb, yc, yd]) cache_format
      = cache_dir @ ''/'' @ segment @ ''-'' @ ident @ ''-'' @ [ya, yb, yc, yd, ma, mb, da, db]
          @ ''.'' @ cache_format"
  by (simp add: reformat_date_def slice_def cache_file_name_def)

theorem reformat_date_layout_witness:
  "cache_file_name ''/tmp/ilostat'' ''indicator'' ''UNE_TUNE_SEX_AGE_NB_M''
       (reformat_date ''27.03.2019'') ''csv.gz''
     = ''/tmp/ilostat/indicator-UNE_TUNE_SEX_AGE_NB_M-20190327.csv.gz''"
  using reformat_date_layout[where da = "CHR ''2''" and db = "CHR ''7''" and p = "CHR ''.''" and ma = "CHR ''0''"
        and mb = "CHR ''3''" and q = "CHR ''.''" and ya = "CHR ''2''" and yb = "CHR ''0''"
        and yc = "CHR ''1''" and yd = "CHR ''9''",
        THEN conjunct2, THEN conjunct2]
  by simp

section \<open>A table of contents that cannot be read\<close>

text \<open>
  Claim C4 says that \<open>get_ilostat_toc\<close> answers an unreadable table of contents with an
  empty table and a printed diagnostic. The call to \<open>pandas.read_csv\<close> stands outside any
  \<open>try\<close>: whatever it raises is what \<open>get_ilostat_toc\<close> raises, for every segment,
  language, search and filter list, and nothing is printed. The diagnostic of line 374
  is printed only for a result that is not a DataFrame, which \<open>read_csv\<close> never returns.
\<close>

theorem toc_parse_failure_propagates:
  assumes "read_csv_url env (toc_url (if is_model segment then ''modelled_estimates'' else segment)
              (if is_model segment then ''en'' else lang)) = Inl e"
  shows "fst (get_ilostat_toc env segment lang search filters st) = Inl e
       \<and> stdout (snd (get_ilostat_toc env segment lang search filters st)) = stdout st"
  using assms by (simp add: get_ilostat_toc_def Let_def note_event_def)

theorem toc_parse_failure_propagates_witness:
  "fst (get_ilostat_toc example_env ''ref_area'' ''en'' (SearchList []) [] (example_state []))
     = Inl OSError
   \<and> stdout (snd (get_ilostat_toc example_env ''ref_area'' ''en'' (SearchList []) []
        (example_state []))) = []"
proof -
  have m: "\<not> is_model ''ref_area''"
    by (simp add: is_model_def py_find_def lower_def lower_char_def)
  have "read_csv_url example_env (toc_url (if is_model ''ref_area'' then ''modelled_estimates'' else ''ref_area'')
              (if is_model ''ref_area'' then ''en'' else ''en'')) = Inl OSError"
    unfolding if_not_P[OF m] by (simp add: example_env_def toc_url_def bulk_url_def)
  from toc_parse_failure_propagates[OF this, of "SearchList []" "[]" "example_state []"]
  show ?thesis by (simp add: example_state_def)
qed

section \<open>A dataset file that cannot be read\<close>

text \<open>
  Claim C5 says that both branches of \<open>get_ilostat_raw\<close> answer a failed parse by deleting
  the temporary file, printing the message unless quiet, and returning an empty table. In
  the \<open>modelled_estimates\<close> branch the handler calls \<open>os.remove(tfile)\<close>, and \<open>tfile\<close> is only
  assigned in the other branch: on an \<open>IOError\<close> of \<open>read_stata\<close> the call raises
  UnboundLocalError. The csv.gz branch does what the claim says when the parse raises
  an \<open>IOError\<close>.
\<close>

theorem raw_stata_failure_raises:
  "(read_stata env (bulk_url @ ''modelled_estimates/'' @ ident @ ''.dta'') = Inl OSError \<longrightarrow>
      fst (get_ilostat_raw env ident ''modelled_estimates'' cache_file cache_dir cache_format quiet st)
        = Inl UnboundLocalError)
   \<and> (segment \<noteq> ''modelled_estimates''
        \<and> requests_get env (bulk_url @ segment @ ''/'' @ ident @ ''.csv.gz'') = Inr (Inl OSError) \<longrightarrow>
      fst (get_ilostat_raw env ident segment cache_file cache_dir cache_format quiet st) = Inr DataFrame
      \<and> files (snd (get_ilostat_raw env ident segment cache_file cache_dir cache_format quiet st))
           (replace_all (''.'' @ cache_format) ''.csv.gz'' cache_file) = None
      \<and> stdout (snd (get_ilostat_raw env ident segment cache_file cache_dir cache_format quiet st))
           = stdout st @ (if quiet then [] else [not_readable ident]))"
  by (simp add: get_ilostat_raw_def Let_def os_remove_def note_event_def py_print_def isfile_def)

theorem raw_stata_failure_raises_witness:
  "fst (get_ilostat_raw example_env ''Z_Q'' ''modelled_estimates''
          ''/tmp/ilostat/modelled_estimates-Z_Q-20200101.csv.gz'' ''/tmp/ilostat'' ''csv.gz'' True
          (example_state [])) = Inl UnboundLocalError"
proof -
  have "read_stata example_env (bulk_url @ ''modelled_estimates/'' @ ''Z_Q'' @ ''.dta'') = Inl OSError"
    by (simp add: example_env_def)
  with raw_stata_failure_raises[THEN conjunct1, of example_env "''Z_Q''"] show ?thesis
    by blast
qed

section \<open>get_ilostat on a DataFrame of ids\<close>

lemma set_unique_acc: "set (unique_acc seen xs) = set seen \<union> set xs"
proof (induction xs arbitrary: seen)
  case Nil
  show ?case by simp
next
  case (Cons x xs)
  show ?case
  proof (cases "x \<in> set seen")
    case True
    then show ?thesis using Cons[of seen] by auto
  next
    case False
    then show ?thesis using Cons[of "x # seen"] by auto
  qed
qed


lemma set_unique: "set (unique xs) = set xs"
  by (simp add: unique_def set_unique_acc)


lemma unique_Nil: "unique xs = [] \<longleftrightarrow> xs = []"
  using set_unique[of xs] by (metis set_empty)

lemma normalize_id_frame:
  "normalize_id (IdFrame df) =
     (if column_index ''id'' df = None then Inl AttributeError
      else if rows df = [] then Inl IndexError
      else Inr (Some (let ref_id = unique (map (\<lambda>r. cell_at r (the (column_index ''id'' df))) (rows df))
                      in if 1 < length ref_id then RefList ref_id else RefOne (hd ref_id))))"
proof (cases "column_index ''id'' df")
  case None
  then show ?thesis by (simp add: normalize_id_def)
next
  case (Some k)
  show ?thesis
  proof (cases "unique (map (\<lambda>r. cell_at r k) (rows df))")
    case Nil
    then have "rows df = []" by (simp add: unique_Nil)
    with Some Nil show ?thesis by (simp add: normalize_id_def)
  next
    case (Cons x xs)
    then have "rows df \<noteq> []" using unique_Nil[of "map (\<lambda>r. cell_at r k) (rows df)"] by auto
    with Some Cons show ?thesis by (simp add: normalize_id_def Let_def)
  qed
qed

text \<open>
  Claim C10. With a DataFrame as \<open>id\<close>, \<open>get_ilostat\<close> never returns a table and fetches
  nothing: no branch assigns \<open>dat\<close>, so \<open>return dat\<close> raises UnboundLocalError whenever it
  is reached, that is whenever the frame has an \<open>id\<close> column and a row; otherwise the
  normalization at the top has already raised (AttributeError for \<open>id.id\<close> without such
  a column, IndexError for \<open>ref_id[0]\<close> without a row).
\<close>

theorem get_ilostat_frame_fails:
  "get_ilostat env (IdFrame df) segment filters cache cache_update cache_dir cache_format quiet st
     = (Inl (if column_index ''id'' df = None then AttributeError
             else if rows df = [] then IndexError else UnboundLocalError), st)"
  unfolding get_ilostat_def normalize_id_frame by (simp add: Let_def)

theorem get_ilostat_frame_fails_witness:
  "get_ilostat example_env (IdFrame example_toc) ''indicator'' [] True True [] ''csv.gz'' False
       (example_state [])
     = (Inl UnboundLocalError, example_state [])"
proof -
  have "column_index ''id'' example_toc \<noteq> None" "rows example_toc \<noteq> []"
    by (simp_all add: column_index_def example_toc_def)
  with get_ilostat_frame_fails[of example_env example_toc "''indicator''" "[]" True True "[]"
      "''csv.gz''" False "example_state []"]
  show ?thesis by simp
qed

section \<open>The cache decision\<close>












section \<open>Labels of simple fields\<close>

lemma column_index_first: "columns t = (dic, ty) # rest \<Longrightarrow> column_index dic t = Some 0"
  by (simp add: column_index_def)

lemma filter_distinct_key:
  "distinct (map f xs) \<Longrightarrow>
     filter (\<lambda>r. f r = v) xs = (case find (\<lambda>r. f r = v) xs of None \<Rightarrow> [] | Some r \<Rightarrow> [r])"
proof (induction xs)
  case Nil
  show ?case by simp
next
  case (Cons x xs)
  show ?case
  proof (cases "f x = v")
    case True
    from Cons.prems have "f x \<notin> f ` set xs" by simp
    with True have "\<forall>r\<in>set xs. f r \<noteq> v" by blast
    then have "filter (\<lambda>r. f r = v) xs = []" by (simp add: filter_empty_conv)
    with True show ?thesis by simp
  next
    case False
    with Cons show ?thesis by simp
  qed
qed

lemma lookup_label_present:
  assumes "distinct (map (\<lambda>r. cell_at r 0) (rows t))" and "r \<in> set (rows t)"
    and "cell_at r 0 = Str c"
  shows "lookup_label t c = cell_at r 1"
proof -
  from assms(2,3) have "filter (\<lambda>r. cell_at r 0 = Str c) (rows t) \<noteq> []"
    by (auto simp: filter_empty_conv)
  with filter_distinct_key[OF assms(1), of "Str c"]
  obtain r' where f: "find (\<lambda>r. cell_at r 0 = Str c) (rows t) = Some r'"
    and one: "filter (\<lambda>r. cell_at r 0 = Str c) (rows t) = [r']"
    by (auto split: option.splits)
  from assms(2,3) have "r \<in> set (filter (\<lambda>r. cell_at r 0 = Str c) (rows t))" by simp
  with one have "r = r'" by simp
  with f show ?thesis by (simp add: lookup_label_def)
qed

lemma lookup_label_absent:
  assumes "\<forall>r\<in>set (rows t). cell_at r 0 \<noteq> Str c"
  shows "lookup_label t c = NaN"
proof -
  from assms have "find (\<lambda>r. cell_at r 0 = Str c) (rows t) = None"
    by (simp add: find_None_iff)
  then show ?thesis by (simp add: lookup_label_def)
qed

lemma others_of_first: "2 \<le> n \<Longrightarrow> filter (\<lambda>i. i \<noteq> 0) [0..<n] = 1 # [2..<n]"
proof -
  assume n: "2 \<le> n"
  then have "[0..<n] = 0 # 1 # [2..<n]"
    by (metis One_nat_def Suc_1 less_eq_Suc_le not_less_eq_eq upt_conv_Cons zero_less_Suc le_trans
        linorder_not_less)
  moreover have "filter (\<lambda>i. i \<noteq> 0) [2..<n] = [2..<n]"
    by (simp add: filter_id_conv)
  ultimately show ?thesis by simp
qed

lemma merge_row:
  assumes n: "2 \<le> n" and d: "distinct (map (\<lambda>r. cell_at r 0) (rows right))"
  shows "map (\<lambda>r. cell_at r 1)
           (case filter (\<lambda>r. cell_at r 0 = Str c) (rows right) of
              [] \<Rightarrow> [Str c # replicate (n - 1) NaN]
            | m # ms \<Rightarrow> map (\<lambda>r. Str c # other_cells n 0 r) (m # ms))
         = [lookup_label right c]"
proof (cases "find (\<lambda>r. cell_at r 0 = Str c) (rows right)")
  case None
  with filter_distinct_key[OF d, of "Str c"]
  have "filter (\<lambda>r. cell_at r 0 = Str c) (rows right) = []" by simp
  moreover from n obtain k where "n - 1 = Suc k" by (cases "n - 1") auto
  ultimately show ?thesis using None by (simp add: lookup_label_def cell_at_def)
next
  case (Some r)
  with filter_distinct_key[OF d, of "Str c"]
  have "filter (\<lambda>r. cell_at r 0 = Str c) (rows right) = [r]" by simp
  then show ?thesis using Some others_of_first[OF n]
    by (simp add: lookup_label_def other_cells_def cell_at_def)
qed

lemma merge_lookup:
  assumes cols: "columns right = (dic, ObjectT) # label_column # rest"
    and d: "distinct (map (\<lambda>r. cell_at r 0) (rows right))"
  shows "(case merge_left dic (map Str codes) right of
            Inl e \<Rightarrow> Inl e | Inr y \<Rightarrow> second_column y)
         = Inr (map (lookup_label right) codes)"
proof -
  let ?n = "length (columns right)"
  let ?row = "\<lambda>c. (case filter (\<lambda>r. cell_at r 0 = c) (rows right) of
                      [] \<Rightarrow> [c # replicate (?n - 1) NaN]
                    | m # ms \<Rightarrow> map (\<lambda>r. c # other_cells ?n 0 r) (m # ms))"
  have n: "2 \<le> ?n" using cols by simp
  let ?y = "\<lparr>columns = (dic, ObjectT) # map (\<lambda>i. columns right ! i) (filter (\<lambda>i. i \<noteq> 0) [0..<?n]),
             rows = concat (map ?row (map Str codes))\<rparr> :: 'a table"
  have ok: "\<not> (map Str codes \<noteq> [] \<and> rows right \<noteq> []
        \<and> (list_ex is_Str (map Str codes :: 'a cell list) \<noteq> (snd (columns right ! 0) = ObjectT)))"
    using cols by (cases codes) (simp_all add: is_Str_def)
  have m: "merge_left dic (map Str codes) right = Inr ?y"
    using ok by (simp add: merge_left_def column_index_first[OF cols] Let_def)
  have "length (columns ?y) = ?n"
    using n others_of_first[OF n] by simp
  then have "second_column ?y = Inr (map (\<lambda>r. cell_at r 1) (rows ?y))"
    using n by (simp add: second_column_def)
  also have "map (\<lambda>r. cell_at r 1) (rows ?y) = concat (map (\<lambda>c. map (\<lambda>r. cell_at r 1) (?row (Str c))) codes)"
    by (simp add: map_concat comp_def)
  also have "\<dots> = concat (map (\<lambda>c. [lookup_label right c]) codes)"
    using merge_row[OF n d] by simp
  also have "\<dots> = map (lookup_label right) codes"
    by (induction codes) simp_all
  finally show ?thesis using m by simp
qed

lemma dic_read:
  assumes "read_csv_url env (bulk_url @ ''dic/'' @ lower dic @ ''_'' @ lower lang @ ''.csv'')
             = Inr (Frame dic_df)"
  shows "get_ilostat_dic env dic lang st
     = (Inr (Frame dic_df),
        note_event (ReadCsvUrl (bulk_url @ ''dic/'' @ lower dic @ ''_'' @ lower lang @ ''.csv'')) st)"
  using assms by (simp add: get_ilostat_dic_def Let_def)

text \<open>
  Claim C7. Let the dictionary name be non-empty and without \<open>note_\<close>, and let the
  dictionary read for it be a table whose first column is the code column, called as the
  dictionary, with the label in the second column and no code twice. Then for a list of
  codes (or a Series of them without a name, or called as the dictionary)
  \<open>label_ilostat\<close> raises nothing and returns one label per code, in order: the label cell
  of the code's row when the dictionary has the code, NaN when it has not.
\<close>

theorem simple_field_labels:
  assumes "dic \<noteq> []" and "py_find (lower dic) ''note_'' = - 1"
    and "read_csv_url env (bulk_url @ ''dic/'' @ lower dic @ ''_'' @ lower lang @ ''.csv'')
           = Inr (Frame dic_df)"
    and "columns dic_df = (dic, ObjectT) # label_column # rest"
    and "distinct (map (\<lambda>r. cell_at r 0) (rows dic_df))"
    and "x = PyList codes \<or> x = Series None codes \<or> x = Series (Some dic) codes"
  shows "fst (label_ilostat env (XVector x) dic code lang st)
           = Inr (Labels (map (lookup_label dic_df) codes))
       \<and> (\<forall>c r. r \<in> set (rows dic_df) \<and> cell_at r 0 = Str c \<longrightarrow>
              lookup_label dic_df c = cell_at r 1)
       \<and> (\<forall>c. (\<forall>r\<in>set (rows dic_df). cell_at r 0 \<noteq> Str c) \<longrightarrow> lookup_label dic_df c = NaN)"
proof (intro conjI allI impI)
  have col: "one_column dic None codes = (map Str codes :: 'a cell list)"
    "one_column dic (Some dic) codes = (map Str codes :: 'a cell list)"
    by (simp_all add: one_column_def)
  have v: "label_vector dic dic_df x s = (Inr (map (lookup_label dic_df) codes), s)" for s
    using assms(2,6) merge_lookup[OF assms(4,5), of codes]
    by (auto simp: label_vector_def col split: sum.splits)
  show "fst (label_ilostat env (XVector x) dic code lang st)
           = Inr (Labels (map (lookup_label dic_df) codes))"
    using assms(1) by (simp add: label_ilostat_def dic_read[OF assms(3)] v)
next
  fix c r
  assume "r \<in> set (rows dic_df) \<and> cell_at r 0 = Str c"
  then show "lookup_label dic_df c = cell_at r 1"
    using lookup_label_present[OF assms(5)] by blast
next
  fix c
  assume "\<forall>r\<in>set (rows dic_df). cell_at r 0 \<noteq> Str c"
  then show "lookup_label dic_df c = NaN" by (rule lookup_label_absent)
qed

theorem simple_field_labels_witness:
  "fst (label_ilostat example_env (XVector (PyList [''SEX_M'', ''SEX_F'', ''SEX_T''])) ''sex'' []
          ''en'' (example_state []))
     = Inr (Labels [Str ''Sex: Male'', NaN, Str ''Sex: Total''])"
proof -
  have n: "py_find (lower ''sex'') ''note_'' = - 1"
    by (simp add: py_find_def lower_def lower_char_def)
  have r: "read_csv_url example_env (bulk_url @ ''dic/'' @ lower ''sex'' @ ''_'' @ lower ''en'' @ ''.csv'')
       = Inr (Frame example_sex)"
    by (simp add: example_env_def lower_def lower_char_def bulk_url_def)
  have c: "columns example_sex = (''sex'', ObjectT) # (''sex.label'', ObjectT) # [(''sex.sort'', ObjectT)]"
    by (simp add: example_sex_def)
  have d: "distinct (map (\<lambda>r. cell_at r 0) (rows example_sex))"
    by (simp add: example_sex_def cell_at_def)
  have l: "map (lookup_label example_sex) [''SEX_M'', ''SEX_F'', ''SEX_T'']
       = [Str ''Sex: Male'', NaN, Str ''Sex: Total'']"
    by (simp add: lookup_label_def example_sex_def cell_at_def)
  from simple_field_labels[where x = "PyList [''SEX_M'', ''SEX_F'', ''SEX_T'']"
        and code = "[]" and st = "example_state []", OF _ n r c d, THEN conjunct1]
  show ?thesis using l by simp
qed

section \<open>Labels of note fields\<close>








text \<open>
  One composite code with an elementary code that the dictionary lacks makes the whole
  call raise: the join of line 513 meets a NaN.
\<close>

lemma note_field_missing_code_raises:
  "fst (label_ilostat example_env (XVector (Series (Some ''note_source'') [''A_B'', ''C'']))
          ''note_source'' [] ''en'' (example_state [])) = Inl TypeError"
  by code_simp

section \<open>The lookup of an id in the table of contents\<close>

lemma filter_loop_cong_slots:
  "list_all (\<lambda>i. i < length fs \<and> i < length gs \<and> slot_truthy (fs ! i) = slot_truthy (gs ! i)
       \<and> join_slot (fs ! i) = join_slot (gs ! i)) todo \<Longrightarrow>
     filter_loop re fs todo dat = filter_loop re gs todo dat"
  by (induction todo arbitrary: dat) (auto split: sum.splits)

text \<open>
  \<open>get_ilostat_dat\<close> looks its id up with \<open>filters = [id]\<close>, the string itself as the slot
  of the id column. The slot is joined character by character, so the lookup is the one
  a list of the id's single characters would make: it keeps every row whose id holds one
  of these characters, and the date taken is the one of the first such row.
\<close>

theorem lookup_joins_characters:
  "get_ilostat_toc env segment lang search [SlotStr ident] st
     = get_ilostat_toc env segment lang search [SlotList (map (\<lambda>c. [c]) ident)] st
   \<and> join_slot (SlotStr ''UNE_T'') = ''U|N|E|_|T''"
proof
  have a: "apply_filters re t [SlotStr ident] = apply_filters re t [SlotList (map (\<lambda>c. [c]) ident)]"
    for re and t :: "'a table"
  proof -
    have "filter_loop re [SlotStr ident] [0..<min (length (columns t)) 1] t
        = filter_loop re [SlotList (map (\<lambda>c. [c]) ident)] [0..<min (length (columns t)) 1] t"
      by (rule filter_loop_cong_slots) (auto simp: list_all_iff)
    then show ?thesis by (simp add: apply_filters_def)
  qed
  have b: "toc_filter env [SlotStr ident] toc
      = toc_filter env [SlotList (map (\<lambda>c. [c]) ident)] toc" for toc
    by (cases toc) (simp_all add: toc_filter_def a)
  show "get_ilostat_toc env segment lang search [SlotStr ident] st
     = get_ilostat_toc env segment lang search [SlotList (map (\<lambda>c. [c]) ident)] st"
    by (auto simp: get_ilostat_toc_def Let_def b split: sum.splits prod.splits)
next
  show "join_slot (SlotStr ''UNE_T'') = ''U|N|E|_|T''" by simp
qed

theorem lookup_joins_characters_witness:
  "get_ilostat_toc example_env ''indicator'' ''en'' (SearchList [])
       [SlotList [''Z'', ''_'', ''Q'']] (example_state [])
     = (Inr (Frame example_toc),
        note_event (ReadCsvUrl (bulk_url @ ''indicator/table_of_contents_en.csv''))
          (example_state []))"
proof -
  have m: "\<not> is_model ''indicator''"
    by (simp add: is_model_def py_find_def lower_def lower_char_def)
  have f: "apply_filters re_literals example_toc [SlotStr ''Z_Q''] = Inr example_toc"
    by (simp add: apply_filters_def filter_column_def re_literals_def py_find_def
        str_contains_def cell_at_def example_toc_def)
  have "get_ilostat_toc example_env ''indicator'' ''en'' (SearchList []) [SlotStr ''Z_Q'']
       (example_state [])
     = (Inr (Frame example_toc),
        note_event (ReadCsvUrl (bulk_url @ ''indicator/table_of_contents_en.csv''))
          (example_state []))"
    by (simp add: get_ilostat_toc_def m toc_url_def toc_search_def toc_filter_def f
        example_env_def Let_def)
  with lookup_joins_characters[THEN conjunct1, of example_env "''indicator''" "''en''"
      "SearchList []" "''Z_Q''" "example_state []"]
  show ?thesis by simp
qed

end
